theory Spec2Isabelle
  imports Main "HOL-Library.Word"
begin

section \<open>JavaScript values\<close>

text \<open>
  A JavaScript string is a sequence of 16-bit code units. Literals of the source are
  written with \<open>js\<close>, which maps the characters of an ASCII literal to code units.
\<close>

type_synonym jschar = "16 word"
type_synonym jstring = "jschar list"

definition js :: "string \<Rightarrow> jstring" where
  "js s = map of_char s"

text \<open>
  The values the database wrapper handles: \<open>undefined\<close>, \<open>null\<close>, booleans, numbers,
  strings and plain objects. Numbers are never computed with, only passed along and
  compared, so the representation \<open>'n\<close> of the numbers other than \<open>NaN\<close> is left open;
  \<open>NaN\<close> is a value of its own, because the store treats it unlike every other number. A
  plain object is the list of its enumerable properties in enumeration order (the order
  of \<open>for ... in\<close>, \<open>Object.keys\<close>, \<open>Object.values\<close> and \<open>Object.entries\<close>); an array is the
  object whose keys are its indices.
\<close>

datatype 'n jsval =
    JUndefined
  | JNull
  | JBool bool
  | JNum 'n
  | JNaN
  | JStr jstring
  | JObj "(jstring \<times> 'n jsval) list"

type_synonym 'n obj = "(jstring \<times> 'n jsval) list"

text \<open>The string held by a string value; it is applied to string values only.\<close>

fun the_str :: "'n jsval \<Rightarrow> jstring" where
  "the_str (JStr s) = s"
| "the_str _ = []"

text \<open>\<open>Array.prototype.join\<close> on an array of strings.\<close>

fun array_join :: "jstring list \<Rightarrow> jstring \<Rightarrow> jstring" where
  "array_join [] sep = []"
| "array_join [x] sep = x"
| "array_join (x # y # ys) sep = x @ sep @ array_join (y # ys) sep"


section \<open>Property order of ordinary objects\<close>

text \<open>
  The language standard (ECMA-262, OrdinaryOwnPropertyKeys) enumerates the keys that are
  array indices first, in ascending numeric order, and then the other string keys in the
  order of their creation. An array index is a canonical decimal numeral below
  \<open>2^32 - 1 = 4294967295\<close>.
\<close>

definition digitValue :: "jschar \<Rightarrow> nat option" where
  "digitValue c =
     (let n = unat c in if 48 \<le> n \<and> n \<le> 57 then Some (n - 48) else None)"

fun decimalValue :: "jstring \<Rightarrow> nat \<Rightarrow> nat option" where
  "decimalValue [] acc = Some acc"
| "decimalValue (c # cs) acc =
     (case digitValue c of
        None \<Rightarrow> None
      | Some d \<Rightarrow> decimalValue cs (10 * acc + d))"

definition arrayIndex :: "jstring \<Rightarrow> nat option" where
  "arrayIndex k =
     (case k of
        [] \<Rightarrow> None
      | c # cs \<Rightarrow>
          if c = 48 \<and> cs \<noteq> [] then None
          else (case decimalValue k 0 of
                  None \<Rightarrow> None
                | Some n \<Rightarrow> if n < 4294967295 then Some n else None))"

text \<open>\<open>precedes k k'\<close>: a new key \<open>k\<close> is enumerated before the existing key \<open>k'\<close>.\<close>

definition precedes :: "jstring \<Rightarrow> jstring \<Rightarrow> bool" where
  "precedes k k' =
     (case arrayIndex k of
        None \<Rightarrow> False
      | Some i \<Rightarrow> (case arrayIndex k' of None \<Rightarrow> True | Some j \<Rightarrow> i < j))"

text \<open>
  Writing the own property \<open>k\<close> of an object: an existing property keeps its place and
  takes the new value, a new property is placed by the enumeration order.
\<close>

fun defineProp :: "'n obj \<Rightarrow> jstring \<Rightarrow> 'n jsval \<Rightarrow> 'n obj" where
  "defineProp [] k v = [(k, v)]"
| "defineProp ((k', v') # rest) k v =
     (if k' = k then (k, v) # rest
      else if precedes k k' then (k, v) # (k', v') # rest
      else (k', v') # defineProp rest k v)"

text \<open>
  \<open>Object.fromEntries\<close> creates the properties one after the other as own properties
  (CreateDataProperty), whatever their names.
\<close>

definition fromEntries :: "'n obj \<Rightarrow> 'n obj" where
  "fromEntries entries = foldl (\<lambda>res (k, v). defineProp res k v) [] entries"

text \<open>
  An object that the wrapper creates and assigns to: its own properties and its
  prototype. The literal \<open>{}\<close> has the prototype \<open>Object.prototype\<close>, which has no
  enumerable property and holds the accessor \<open>__proto__\<close>; the plain objects of the input
  have that prototype too.
\<close>

datatype 'n proto = ObjectPrototype | NullPrototype | OtherPrototype "'n obj"

record 'n jsobject =
  own :: "'n obj"
  proto :: "'n proto"

definition emptyObject :: "'n jsobject" where
  "emptyObject = \<lparr>own = [], proto = ObjectPrototype\<rparr>"

definition protoKey :: jstring where
  "protoKey = js ''__proto__''"

text \<open>
  Whether an assignment to \<open>res.__proto__\<close> reaches the setter of \<open>Object.prototype\<close>: the
  object has no own property of that name, and neither has a plain object that has
  become its prototype; an object without prototype inherits no setter.
\<close>

definition setterReached :: "'n jsobject \<Rightarrow> bool" where
  "setterReached res =
     (protoKey \<notin> fst ` set (own res) \<and>
      (case proto res of
         ObjectPrototype \<Rightarrow> True
       | NullPrototype \<Rightarrow> False
       | OtherPrototype p \<Rightarrow> protoKey \<notin> fst ` set p))"

text \<open>
  The assignment \<open>res[k] = v\<close>. Under the name \<open>__proto__\<close> it calls the setter, when it
  reaches it: the setter replaces the prototype by an object or by \<open>null\<close>, ignores any
  other value, and creates no property. Every other assignment writes the own property.
\<close>

definition setProp :: "'n jsobject \<Rightarrow> jstring \<Rightarrow> 'n jsval \<Rightarrow> 'n jsobject" where
  "setProp res k v =
     (if k = protoKey \<and> setterReached res then
        (case v of
           JNull \<Rightarrow> res\<lparr>proto := NullPrototype\<rparr>
         | JObj p \<Rightarrow> res\<lparr>proto := OtherPrototype p\<rparr>
         | _ \<Rightarrow> res)
      else res\<lparr>own := defineProp (own res) k v\<rparr>)"

text \<open>
  \<open>Object.assign(target, source)\<close> assigns the own enumerable properties of the source to
  the target, one after the other.
\<close>

definition assign :: "'n jsobject \<Rightarrow> 'n obj \<Rightarrow> 'n jsobject" where
  "assign target source = foldl (\<lambda>res (k, v). setProp res k v) target source"

text \<open>
  The properties that \<open>for ... in\<close> visits on such an object: its own, then those of a
  plain object that has become its prototype, unless an own property hides them.
\<close>

definition forIn :: "'n jsobject \<Rightarrow> 'n obj" where
  "forIn obj =
     own obj @
     (case proto obj of
        OtherPrototype p \<Rightarrow> filter (\<lambda>kv. fst kv \<notin> fst ` set (own obj)) p
      | _ \<Rightarrow> [])"

text \<open>
  A list of keys is in enumeration order when the keys are distinct, the array indices
  ascend and no array index follows another key. Every object is in this order.
\<close>

fun orderedKeys :: "jstring list \<Rightarrow> bool" where
  "orderedKeys [] = True"
| "orderedKeys (k # ks) =
     (k \<notin> set ks \<and> list_all (\<lambda>k'. \<not> precedes k' k) ks \<and> orderedKeys ks)"


section \<open>The built-in functions escape and unescape\<close>

text \<open>
  \<open>escape\<close> and \<open>unescape\<close> are built-in functions of the JavaScript runtime, not code of
  the repository. They are modelled from the language standard (ECMA-262, B.2.1.1 and
  B.2.1.2): \<open>escape\<close> keeps the letters, the digits and \<open>@*_+-./\<close>, writes any other code
  unit below 256 as \<open>%XX\<close> and any code unit from 256 on as \<open>%uXXXX\<close>, with upper-case
  hexadecimal digits; \<open>unescape\<close> scans from the left and replaces each \<open>%uXXXX\<close> and,
  failing that, each \<open>%XX\<close> whose digits are hexadecimal (in either case) by the code
  unit it denotes.
\<close>

definition unescapedSet :: jstring where
  "unescapedSet =
     js ''ABCDEFGHIJKLMNOPQRSTUVWXYZabcdefghijklmnopqrstuvwxyz0123456789@*_+-./''"

definition hexDigit :: "nat \<Rightarrow> jschar" where
  "hexDigit d = js ''0123456789ABCDEF'' ! (d mod 16)"

definition escapeUnit :: "jschar \<Rightarrow> jstring" where
  "escapeUnit c =
     (if c \<in> set unescapedSet then [c]
      else let n = unat c in
        if n < 256 then js ''%'' @ [hexDigit (n div 16), hexDigit n]
        else js ''%u'' @
          [hexDigit (n div 4096), hexDigit (n div 256), hexDigit (n div 16), hexDigit n])"

definition escape :: "jstring \<Rightarrow> jstring" where
  "escape s = concat (map escapeUnit s)"

definition hexValue :: "jschar \<Rightarrow> nat option" where
  "hexValue c =
     (let n = unat c in
      if 48 \<le> n \<and> n \<le> 57 then Some (n - 48)
      else if 65 \<le> n \<and> n \<le> 70 then Some (n - 55)
      else if 97 \<le> n \<and> n \<le> 102 then Some (n - 87)
      else None)"

fun parseHex :: "jstring \<Rightarrow> nat \<Rightarrow> nat option" where
  "parseHex [] acc = Some acc"
| "parseHex (c # cs) acc =
     (case hexValue c of
        None \<Rightarrow> None
      | Some d \<Rightarrow> parseHex cs (16 * acc + d))"

text \<open>The value of a nonempty string of hexadecimal digits.\<close>

definition hexDigitsValue :: "jstring \<Rightarrow> nat option" where
  "hexDigitsValue ds = (if ds = [] then None else parseHex ds 0)"

text \<open>
  At a \<open>%\<close> in position \<open>k\<close> the standard takes the four code units after \<open>%u\<close> when
  \<open>k + 6 \<le> len\<close>, else the two code units after \<open>%\<close> when \<open>k + 3 \<le> len\<close>; here \<open>cs\<close> is
  the string after the \<open>%\<close>, so these are \<open>5 \<le> length cs\<close> and \<open>2 \<le> length cs\<close>.
\<close>

function unescape :: "jstring \<Rightarrow> jstring" where
  "unescape [] = []"
| "unescape (c # cs) =
     (if c = 37 then
        (let (hexDigits, optionalAdvance) =
               (if 5 \<le> length cs \<and> hd cs = 117 then (take 4 (tl cs), 5::nat)
                else if 2 \<le> length cs then (take 2 cs, 2)
                else ([], 0))
         in case hexDigitsValue hexDigits of
              Some n \<Rightarrow> word_of_nat n # unescape (drop optionalAdvance cs)
            | None \<Rightarrow> c # unescape cs)
      else c # unescape cs)"
  by pat_completeness auto
termination
  by (relation "measure length") (auto split: if_splits)


section \<open>Quoting\<close>

text \<open>
  \<open>quote(k, isColumn = true)\<close>. The quotation mark of a literal is the empty string.
\<close>

fun quote :: "('n::{zero,one}) jsval \<Rightarrow> bool \<Rightarrow> 'n jsval" where
  \<open>quote (JStr k) isColumn =
     (let quotes = (if isColumn then js ''"'' else js '''')
      in JStr (quotes @ (if isColumn then k else escape k) @ quotes))\<close>
| "quote JNull isColumn = JStr (js ''null'')"
| "quote (JBool True) isColumn = JNum 1"
| "quote (JBool False) isColumn = JNum 0"
| "quote k isColumn = k"

definition quoteAll :: "('n::{zero,one}) jsval list \<Rightarrow> bool \<Rightarrow> 'n jsval list" where
  "quoteAll arr isColumn = map (\<lambda>v. quote v isColumn) arr"

text \<open>
  \<open>dequoteAll(obj)\<close>. The argument is a row of the store or \<open>undefined\<close> (no row), which
  is the falsy case of the source.
\<close>

definition dequoteAll :: "'n obj option \<Rightarrow> 'n obj option" where
  "dequoteAll obj =
     (case obj of
        None \<Rightarrow> None
      | Some row \<Rightarrow>
          Some (fromEntries
            (map (\<lambda>(k, v). (k, (case v of JStr s \<Rightarrow> JStr (unescape s) | _ \<Rightarrow> v))) row)))"


section \<open>Flattening\<close>

text \<open>
  \<open>flattenObj(obj, parent, res = {})\<close>. The argument \<open>obj\<close> is given by the properties
  that \<open>for ... in\<close> visits. The parent is \<open>undefined\<close> (\<open>None\<close>) at the top; the test
  \<open>parent ? ... : key\<close> is on its truthiness, and the empty string is falsy too. The
  result object \<open>res\<close> is mutated in place and returned, so the recursive call hands its
  result to the rest of the loop; a call without \<open>res\<close> starts from \<open>emptyObject\<close>.
\<close>

definition propName :: "jstring option \<Rightarrow> jstring \<Rightarrow> jstring" where
  "propName parent key =
     (case parent of
        None \<Rightarrow> key
      | Some p \<Rightarrow> if p \<noteq> [] then p @ js ''_'' @ key else key)"

fun flattenObj :: "'n obj \<Rightarrow> jstring option \<Rightarrow> 'n jsobject \<Rightarrow> 'n jsobject" where
  "flattenObj [] parent res = res"
| "flattenObj ((key, JObj kvs) # rest) parent res =
     flattenObj rest parent (flattenObj kvs (Some (propName parent key)) res)"
| "flattenObj ((key, v) # rest) parent res =
     flattenObj rest parent (setProp res (propName parent key) v)"

section \<open>Statement builders\<close>

text \<open>
  \<open>buildParamString(params, joiner = ' AND ', kvJoiner = ' = ?')\<close>; the callers that
  rely on a default pass it here.
\<close>

definition buildParamString :: "('n::{zero,one}) obj \<Rightarrow> jstring \<Rightarrow> jstring \<Rightarrow> jstring" where
  "buildParamString params joiner kvJoiner =
     (let flattenedItem = flattenObj params None emptyObject;
          paramString = map (\<lambda>(k, v). the_str (quote (JStr k) True :: 'n jsval) @ kvJoiner)
                          (own flattenedItem)
      in array_join paramString joiner)"

definition buildInsertQuery :: "jstring \<Rightarrow> ('n::{zero,one}) obj \<Rightarrow> jstring" where
  \<open>buildInsertQuery table params =
     (let flattenedItem = flattenObj params None emptyObject;
          columnNamesString =
            array_join (map the_str (quoteAll (map JStr (map fst (own flattenedItem))) True
                          :: 'n jsval list)) (js '', '');
          dataString = array_join (map (\<lambda>k. js ''?'') (map fst (own flattenedItem))) (js '', '')
      in js ''INSERT INTO "'' @ table @ js ''" ('' @ columnNamesString @
         js '') VALUES ('' @ dataString @ js '');'')\<close>

definition buildSelectQuery :: "jstring \<Rightarrow> ('n::{zero,one}) obj \<Rightarrow> jstring" where
  \<open>buildSelectQuery table params =
     (let whereString = buildParamString params (js '' AND '') (js '' = ?'')
      in if whereString \<noteq> []
         then js ''SELECT * FROM "'' @ table @ js ''" WHERE '' @ whereString @ js '';''
         else js ''SELECT * FROM "'' @ table @ js ''";'')\<close>

text \<open>
  \<open>buildUpdateQuery(table, valueParams, whereParams = {})\<close>: an absent filter (\<open>None\<close>)
  is the empty object.
\<close>

definition buildUpdateQuery ::
  "jstring \<Rightarrow> ('n::{zero,one}) obj \<Rightarrow> 'n obj option \<Rightarrow> jstring" where
  \<open>buildUpdateQuery table valueParams whereParams =
     (let whereParams = (case whereParams of None \<Rightarrow> [] | Some w \<Rightarrow> w);
          flattenedValues = flattenObj valueParams None emptyObject;
          flattenedWhere = flattenObj whereParams None emptyObject;
          valueString = buildParamString (forIn flattenedValues) (js '', '') (js '' = ?'');
          whereString = buildParamString (forIn flattenedWhere) (js '' AND '') (js '' = ?'')
      in if whereString \<noteq> []
         then js ''UPDATE "'' @ table @ js ''" SET '' @ valueString @ js '' WHERE '' @
              whereString @ js '';''
         else js ''UPDATE "'' @ table @ js ''" SET '' @ valueString @ js ''";'')\<close>


section \<open>The store\<close>

text \<open>
  The wrapper runs its statements on a connection of the embedded store
  (\<open>better-sqlite3\<close>), which is not code of the repository. It is modelled over any store
  that offers the four operations the wrapper calls, on a connection state \<open>'s\<close> that
  holds the database and its open transaction: \<open>db.prepare(sql)\<close> throws or yields a
  statement, which is represented by its text; \<open>run\<close>, \<open>get\<close> and \<open>all\<close> execute a
  statement with the values bound to its placeholders and return the store's result
  \<open>'i\<close>, one row or \<open>undefined\<close> (\<open>None\<close>), and all rows. An exception leaves the
  connection in the state it was thrown in, so every operation returns the state beside
  its result or error.
\<close>

datatype error = SqliteError | RangeError | TypeError | ReferenceError

record ('s, 'n, 'i) engine =
  db_prepare :: "'s \<Rightarrow> jstring \<Rightarrow> error option"
  stmt_run :: "'s \<Rightarrow> jstring \<Rightarrow> 'n jsval list \<Rightarrow> (error + 'i) \<times> 's"
  stmt_get :: "'s \<Rightarrow> jstring \<Rightarrow> 'n jsval list \<Rightarrow> (error + 'n obj option) \<times> 's"
  stmt_all :: "'s \<Rightarrow> jstring \<Rightarrow> 'n jsval list \<Rightarrow> (error + 'n obj list) \<times> 's"

text \<open>\<open>this.db.prepare(sql).run()\<close>, as the wrapper writes it for its fixed statements.\<close>

definition prepare_run ::
  "('s, 'n, 'i) engine \<Rightarrow> 's \<Rightarrow> jstring \<Rightarrow> (error + 'i) \<times> 's" where
  "prepare_run eng s sql =
     (case db_prepare eng s sql of
        Some e \<Rightarrow> (Inl e, s)
      | None \<Rightarrow> stmt_run eng s sql [])"


section \<open>Initialisation\<close>

text \<open>
  \<open>initTables\<close> overwrites the column arrays of the schema it is given, and the same array
  may occur more than once in a schema. The column arrays therefore live in a heap, at
  addresses: a column is the array of its name and the strings after it (the declared
  type), \<open>v[0]\<close> is the name, and a table holds its name and the addresses of its columns.
\<close>

type_synonym addr = nat
type_synonym column = "jstring \<times> jstring list"
type_synonym heap = "addr \<Rightarrow> column"

record table_def =
  tableName :: jstring
  columns :: "addr list"

text \<open>
  The callback of \<open>table.columns.map\<close> on a column array \<open>v\<close>: it overwrites \<open>v[0]\<close> with
  the quoted name and returns the joined column. The model returns the new content of the
  array beside the string.
\<close>

definition quoteColumn :: "column \<Rightarrow> column \<times> jstring" where
  "quoteColumn v =
     (let v0 = the_str (quote (JStr (fst v) :: nat jsval) True)
      in ((v0, snd v), array_join (v0 # snd v) (js '' '')))"

text \<open>\<open>table.columns.map\<close>: the callback runs on the arrays in order, each in the heap
  the calls before it have left.\<close>

fun quoteColumns :: "heap \<Rightarrow> addr list \<Rightarrow> heap \<times> jstring list" where
  "quoteColumns h [] = (h, [])"
| "quoteColumns h (a # as) =
     (case quoteColumn (h a) of
        (v, flattened) \<Rightarrow>
          (case quoteColumns (h(a := v)) as of
             (h', rest) \<Rightarrow> (h', flattened # rest)))"

text \<open>
  The loop of \<open>initTables\<close> over the tables. It returns the heap as the loop leaves it:
  the columns of the tables it has reached are overwritten, also when the statement of
  a table throws.
\<close>

fun initTables_loop ::
  "('s, 'n, 'i) engine \<Rightarrow> 's \<Rightarrow> heap \<Rightarrow> table_def list \<Rightarrow> (error + unit) \<times> 's \<times> heap" where
  "initTables_loop eng s h [] = (Inr (), s, h)"
| \<open>initTables_loop eng s h (table # rest) =
     (let name = tableName table in
      case quoteColumns h (columns table) of
        (h1, flattenedColumns) \<Rightarrow>
          (let columnString = array_join flattenedColumns (js '', '') in
           case prepare_run eng s
                  (js ''CREATE TABLE IF NOT EXISTS "'' @ name @ js ''" ('' @ columnString @
                   js '');'') of
             (Inl e, s1) \<Rightarrow> (Inl e, s1, h1)
           | (Inr info, s1) \<Rightarrow> initTables_loop eng s1 h1 rest))\<close>

definition initTables ::
  "('s, 'n, 'i) engine \<Rightarrow> 's \<Rightarrow> heap \<Rightarrow> table_def list \<Rightarrow> (error + unit) \<times> 's \<times> heap" where
  "initTables eng s h schema =
     (case prepare_run eng s (js ''BEGIN EXCLUSIVE TRANSACTION;'') of
        (Inl e, s1) \<Rightarrow> (Inl e, s1, h)
      | (Inr info, s1) \<Rightarrow>
          (case initTables_loop eng s1 h schema of
             (Inl e, s2, h') \<Rightarrow> (Inl e, s2, h')
           | (Inr u, s2, h') \<Rightarrow>
               (case prepare_run eng s2 (js ''COMMIT TRANSACTION;'') of
                  (Inl e, s3) \<Rightarrow> (Inl e, s3, h')
                | (Inr info', s3) \<Rightarrow> (Inr (), s3, h'))))"


section \<open>Execution operations\<close>

text \<open>
  The values an operation binds: \<open>this.quoteAll(Object.values(this.flattenObj(params)),
  false)\<close>, as \<open>insert\<close>, \<open>find\<close>, \<open>findOne\<close> and \<open>update\<close> all write it.
\<close>

definition boundValues :: "('n::{zero,one}) obj \<Rightarrow> 'n jsval list" where
  "boundValues params = quoteAll (map snd (own (flattenObj params None emptyObject))) False"

text \<open>\<open>insert(table, params = {})\<close>.\<close>

definition insert_row ::
  "('s, 'n::{zero,one}, 'i) engine \<Rightarrow> 's \<Rightarrow> jstring \<Rightarrow> 'n obj \<Rightarrow> (error + 'i) \<times> 's" where
  "insert_row eng s table params =
     (let query = buildInsertQuery table params in
      case db_prepare eng s query of
        Some e \<Rightarrow> (Inl e, s)
      | None \<Rightarrow>
          (let values = boundValues params in
           case prepare_run eng s (js ''BEGIN TRANSACTION;'') of
             (Inl e, s1) \<Rightarrow> (Inl e, s1)
           | (Inr b, s1) \<Rightarrow>
               (case stmt_run eng s1 query values of
                  (Inl e, s2) \<Rightarrow> (Inl e, s2)
                | (Inr info, s2) \<Rightarrow>
                    (case prepare_run eng s2 (js ''COMMIT TRANSACTION;'') of
                       (Inl e, s3) \<Rightarrow> (Inl e, s3)
                     | (Inr c, s3) \<Rightarrow> (Inr info, s3)))))"

text \<open>\<open>find(table, params = {})\<close>.\<close>

definition find_rows ::
  "('s, 'n::{zero,one}, 'i) engine \<Rightarrow> 's \<Rightarrow> jstring \<Rightarrow> 'n obj \<Rightarrow>
     (error + 'n obj option list) \<times> 's" where
  "find_rows eng s table params =
     (let query = buildSelectQuery table params in
      case db_prepare eng s query of
        Some e \<Rightarrow> (Inl e, s)
      | None \<Rightarrow>
          (let values = boundValues params in
           case stmt_all eng s query values of
             (Inl e, s1) \<Rightarrow> (Inl e, s1)
           | (Inr rows, s1) \<Rightarrow> (Inr (map (\<lambda>row. dequoteAll (Some row)) rows), s1)))"

text \<open>\<open>findOne(table, params = {})\<close>.\<close>

definition findOne ::
  "('s, 'n::{zero,one}, 'i) engine \<Rightarrow> 's \<Rightarrow> jstring \<Rightarrow> 'n obj \<Rightarrow>
     (error + 'n obj option) \<times> 's" where
  "findOne eng s table params =
     (let query = buildSelectQuery table params in
      case db_prepare eng s query of
        Some e \<Rightarrow> (Inl e, s)
      | None \<Rightarrow>
          (let values = boundValues params in
           case stmt_get eng s query values of
             (Inl e, s1) \<Rightarrow> (Inl e, s1)
           | (Inr row, s1) \<Rightarrow> (Inr (dequoteAll row), s1)))"

text \<open>
  The values \<open>update\<close> binds: both flattened mappings are merged by \<open>Object.assign\<close> into
  one object, which is flattened once more and whose values are quoted. An absent filter
  (\<open>None\<close>) has no properties.
\<close>

definition updateValues :: "('n::{zero,one}) obj \<Rightarrow> 'n obj option \<Rightarrow> 'n jsval list" where
  "updateValues valueParams whereParams =
     (let params = assign (flattenObj valueParams None emptyObject)
                     (own (flattenObj (case whereParams of None \<Rightarrow> [] | Some w \<Rightarrow> w) None
                             emptyObject))
      in boundValues (forIn params))"

text \<open>\<open>update(table, valueParams, whereParams)\<close>.\<close>

definition update ::
  "('s, 'n::{zero,one}, 'i) engine \<Rightarrow> 's \<Rightarrow> jstring \<Rightarrow> 'n obj \<Rightarrow> 'n obj option \<Rightarrow>
     (error + 'i) \<times> 's" where
  "update eng s table valueParams whereParams =
     (let query = buildUpdateQuery table valueParams whereParams in
      case db_prepare eng s query of
        Some e \<Rightarrow> (Inl e, s)
      | None \<Rightarrow>
          (let values = updateValues valueParams whereParams in
           case prepare_run eng s (js ''BEGIN TRANSACTION;'') of
             (Inl e, s1) \<Rightarrow> (Inl e, s1)
           | (Inr b, s1) \<Rightarrow>
               (case stmt_run eng s1 query values of
                  (Inl e, s2) \<Rightarrow> (Inl e, s2)
                | (Inr info, s2) \<Rightarrow>
                    (case prepare_run eng s2 (js ''COMMIT TRANSACTION;'') of
                       (Inl e, s3) \<Rightarrow> (Inl e, s3)
                     | (Inr c, s3) \<Rightarrow> (Inr info, s3)))))"

text \<open>
  \<open>atomicQuery(queries)\<close>. The loop variable \<open>query\<close> is declared nowhere, and the body
  of a class is strict code: unless a global variable of that name exists
  (\<open>queryDeclared\<close>), the first assignment to it throws a \<open>ReferenceError\<close>.
\<close>

fun atomicQuery_loop ::
  "('s, 'n, 'i) engine \<Rightarrow> 's \<Rightarrow> jstring list \<Rightarrow> (error + unit) \<times> 's" where
  "atomicQuery_loop eng s [] = (Inr (), s)"
| "atomicQuery_loop eng s (query # rest) =
     (case prepare_run eng s query of
        (Inl e, s1) \<Rightarrow> (Inl e, s1)
      | (Inr info, s1) \<Rightarrow> atomicQuery_loop eng s1 rest)"

definition atomicQuery ::
  "('s, 'n, 'i) engine \<Rightarrow> bool \<Rightarrow> 's \<Rightarrow> jstring list \<Rightarrow> (error + unit) \<times> 's" where
  "atomicQuery eng queryDeclared s queries =
     (case prepare_run eng s (js ''BEGIN EXCLUSIVE TRANSACTION;'') of
        (Inl e, s1) \<Rightarrow> (Inl e, s1)
      | (Inr info, s1) \<Rightarrow>
          if queries \<noteq> [] \<and> \<not> queryDeclared then (Inl ReferenceError, s1)
          else (case atomicQuery_loop eng s1 queries of
                  (Inl e, s2) \<Rightarrow> (Inl e, s2)
                | (Inr u, s2) \<Rightarrow>
                    (case prepare_run eng s2 (js ''COMMIT TRANSACTION;'') of
                       (Inl e, s3) \<Rightarrow> (Inl e, s3)
                     | (Inr info', s3) \<Rightarrow> (Inr (), s3))))"


section \<open>Reference notions for the statements\<close>


text \<open>
  The leaves of a nested mapping in the order of a depth-first traversal, each with the
  keys of its ancestors and its own key, from the outermost on.
\<close>

fun leafPaths :: "'n obj \<Rightarrow> jstring list \<Rightarrow> (jstring list \<times> 'n jsval) list" where
  "leafPaths [] ancestors = []"
| "leafPaths ((key, JObj kvs) # rest) ancestors =
     leafPaths kvs (ancestors @ [key]) @ leafPaths rest ancestors"
| "leafPaths ((key, v) # rest) ancestors = (ancestors @ [key], v) # leafPaths rest ancestors"

text \<open>The keys of a path joined by an underscore.\<close>

definition joined :: "jstring list \<Rightarrow> jstring" where
  "joined path = array_join path (js ''_'')"

text \<open>The same, without the empty keys a path starts with.\<close>

definition flatName :: "jstring list \<Rightarrow> jstring" where
  "flatName path = joined (dropWhile (\<lambda>k. k = []) path)"


text \<open>
  A store that only records, in order, each statement that is run with the values bound
  to it, and that refuses to prepare the statements in \<open>rejected\<close>. It shows what the
  wrapper sends to the store.
\<close>

definition recording_engine ::
  "(jstring \<Rightarrow> bool) \<Rightarrow> ((jstring \<times> 'n jsval list) list, 'n, unit) engine" where
  "recording_engine rejected =
     \<lparr> db_prepare = (\<lambda>s sql. if rejected sql then Some SqliteError else None),
       stmt_run = (\<lambda>s sql args. (Inr (), s @ [(sql, args)])),
       stmt_get = (\<lambda>s sql args. (Inr None, s @ [(sql, args)])),
       stmt_all = (\<lambda>s sql args. (Inr [], s @ [(sql, args)])) \<rparr>"

text \<open>
  A column name wrapped in double quotation marks, a column whose name is wrapped \<open>k\<close>
  times, and the statement that creates a table from its name and the columns its
  addresses hold in a heap.
\<close>

definition quotedName :: "jstring \<Rightarrow> jstring" where
  \<open>quotedName name = js ''"'' @ name @ js ''"''\<close>

definition timesQuoted :: "nat \<Rightarrow> column \<Rightarrow> column" where
  "timesQuoted k v = ((quotedName ^^ k) (fst v), snd v)"

definition createStatement :: "heap \<Rightarrow> table_def \<Rightarrow> jstring" where
  \<open>createStatement h table =
     js ''CREATE TABLE IF NOT EXISTS "'' @ tableName table @ js ''" ('' @
     array_join (map (\<lambda>a. array_join (fst (h a) # snd (h a)) (js '' '')) (columns table))
       (js '', '') @
     js '');''\<close>







section \<open>Hexadecimal digits and the round trip of escape\<close>

lemma hexValue_hexDigit: "d < 16 \<Longrightarrow> hexValue (hexDigit d) = Some d"
proof -
  assume "d < 16"
  then have "d = 0 \<or> d = 1 \<or> d = 2 \<or> d = 3 \<or> d = 4 \<or> d = 5 \<or> d = 6 \<or> d = 7 \<or> d = 8
      \<or> d = 9 \<or> d = 10 \<or> d = 11 \<or> d = 12 \<or> d = 13 \<or> d = 14 \<or> d = 15"
    by arith
  then show ?thesis
    by (elim disjE) (simp_all add: hexDigit_def hexValue_def js_def)
qed

lemma hexValue_hexDigit_mod: "hexValue (hexDigit n) = Some (n mod 16)"
proof -
  have "hexDigit n = hexDigit (n mod 16)" by (simp add: hexDigit_def)
  then show ?thesis by (simp add: hexValue_hexDigit)
qed

lemma hexDigit_not_u: "hexDigit n \<noteq> 117"
proof
  assume "hexDigit n = 117"
  then have "hexValue (hexDigit n) = hexValue 117" by simp
  then show False by (simp add: hexValue_hexDigit_mod) (simp add: hexValue_def)
qed

lemma hexDigitsValue_two:
  "n < 256 \<Longrightarrow> hexDigitsValue [hexDigit (n div 16), hexDigit n] = Some n"
  by (simp add: hexDigitsValue_def hexValue_hexDigit_mod)

lemma four_digits:
  "16 * (16 * (16 * (n div 4096 mod 16) + n div 256 mod 16) + n div 16 mod 16) + n mod 16
     = (n::nat) mod 65536"
proof -
  have a: "n mod 65536 = 16 * (n div 16 mod 4096) + n mod 16"
    using mod_mult2_eq [of n 16 4096] by simp
  have b: "n div 16 mod 4096 = 16 * (n div 256 mod 256) + n div 16 mod 16"
    using mod_mult2_eq [of "n div 16" 16 256] by (simp add: div_mult2_eq [symmetric])
  have c: "n div 256 mod 256 = 16 * (n div 4096 mod 16) + n div 256 mod 16"
    using mod_mult2_eq [of "n div 256" 16 16] by (simp add: div_mult2_eq [symmetric])
  show ?thesis by (simp only: a b c)
qed

lemma hexDigitsValue_four:
  "hexDigitsValue [hexDigit (n div 4096), hexDigit (n div 256), hexDigit (n div 16), hexDigit n]
     = Some (n mod 65536)"
  using four_digits [of n]
  by (simp add: hexDigitsValue_def hexValue_hexDigit_mod)

lemma percent_escaped: "(37 :: jschar) \<notin> set unescapedSet"
  by (simp add: unescapedSet_def js_def)

lemma unescape_escapeUnit: "unescape (escapeUnit c @ rest) = c # unescape rest"
proof (cases "c \<in> set unescapedSet")
  case True
  then have "c \<noteq> 37" using percent_escaped by auto
  with True show ?thesis by (simp add: escapeUnit_def)
next
  case False
  show ?thesis
  proof (cases "unat c < 256")
    case True
    with False show ?thesis
      by (simp add: escapeUnit_def js_def Let_def hexDigit_not_u hexDigitsValue_two)
  next
    case big: False
    have "unat c < 65536" using unsigned_less [of c] by simp
    then have "unat c mod 65536 = unat c" by simp
    with False big show ?thesis
      by (simp add: escapeUnit_def js_def Let_def hexDigitsValue_four)
  qed
qed

lemma unescape_escape: "unescape (escape s) = s"
  by (induction s) (simp_all add: escape_def unescape_escapeUnit)


section \<open>The quoting helper\<close>

text \<open>What \<open>quote\<close> returns in literal mode, case by case.\<close>

lemma quote_literal:
  "quote v False =
     (case v of
        JStr s \<Rightarrow> JStr (escape s)
      | JNull \<Rightarrow> JStr (js ''null'')
      | JBool b \<Rightarrow> JNum (if b then 1 else 0)
      | _ \<Rightarrow> v)"
proof (cases v)
  case (JBool b)
  then show ?thesis by (cases b) simp_all
qed (simp_all add: js_def)

text \<open>
  C1 fails on the code for strings: the documentation of \<open>quote\<close> and \<open>quoteAll\<close> promises
  double quotation marks for a column and single ones for a string, but the quotation
  mark of literal mode is the empty string. \<open>quote('a', false)\<close> is \<open>a\<close> and not \<open>'a'\<close>
  (code unit 39 is the single quotation mark), while \<open>quote('a', true)\<close> is \<open>"a"\<close>.
\<close>

theorem quote_literal_unquoted:
  "quote (JStr (js ''a'') :: int jsval) False = JStr (js ''a'') \<and>
   quote (JStr (js ''a'') :: int jsval) False \<noteq> JStr ([39] @ escape (js ''a'') @ [39]) \<and>
   quote (JStr (js ''a'') :: int jsval) True = JStr ([34] @ js ''a'' @ [34])"
  by (simp add: js_def escape_def escapeUnit_def unescapedSet_def)


section \<open>Property order and flattening\<close>

lemma array_join_nonempty: "xs \<noteq> [] \<Longrightarrow> hd xs \<noteq> [] \<Longrightarrow> array_join xs sep \<noteq> []"
  by (induction xs sep rule: array_join.induct) simp_all


lemma orderedKeys_prefix: "orderedKeys (xs @ ys) \<Longrightarrow> orderedKeys xs"
  by (induction xs) auto

lemma defineProp_append:
  "orderedKeys (map fst acc @ [k]) \<Longrightarrow> defineProp acc k v = acc @ [(k, v)]"
  by (induction acc) auto

lemma foldl_defineProp_ordered:
  "orderedKeys (map fst (acc @ kvs)) \<Longrightarrow>
   foldl (\<lambda>res (k, v). defineProp res k v) acc kvs = acc @ kvs"
proof (induction kvs arbitrary: acc)
  case Nil
  then show ?case by simp
next
  case (Cons kv kvs)
  obtain k v where kv: "kv = (k, v)" by (cases kv)
  from Cons.prems have ord: "orderedKeys ((map fst acc @ [k]) @ map fst kvs)"
    by (simp add: kv)
  then have "defineProp acc k v = acc @ [(k, v)]"
    by (intro defineProp_append) (rule orderedKeys_prefix)
  moreover have "foldl (\<lambda>res (k, v). defineProp res k v) (acc @ [(k, v)]) kvs = (acc @ [(k, v)]) @ kvs"
    using ord by (intro Cons.IH) simp
  ultimately show ?case by (simp add: kv)
qed

lemma fromEntries_ordered: "orderedKeys (map fst kvs) \<Longrightarrow> fromEntries kvs = kvs"
  using foldl_defineProp_ordered [of "[]" kvs] by (simp add: fromEntries_def)









section \<open>The statement builders\<close>

lemma buildParamString_eq:
  \<open>buildParamString params joiner kvJoiner =
     array_join (map (\<lambda>k. js ''"'' @ k @ js ''"'' @ kvJoiner)
       (map fst (own (flattenObj params None emptyObject)))) joiner\<close>
  by (simp add: buildParamString_def Let_def comp_def case_prod_unfold)

lemma buildParamString_empty_iff:
  "buildParamString params joiner kvJoiner = [] \<longleftrightarrow> own (flattenObj params None emptyObject) = []"
proof (cases "own (flattenObj params None emptyObject)")
  case Nil
  then show ?thesis by (simp add: buildParamString_eq)
next
  case (Cons kv kvs)
  then have "buildParamString params joiner kvJoiner \<noteq> []"
    unfolding buildParamString_eq
    by (intro array_join_nonempty) (simp_all add: js_def)
  with Cons show ?thesis by simp
qed

lemmas eval_simps = js_def propName_def precedes_def arrayIndex_def digitValue_def
  fromEntries_def assign_def joined_def flatName_def setProp_def setterReached_def
  protoKey_def emptyObject_def forIn_def

text \<open>
  C7: \<open>buildSelectQuery(table, {})\<close> is \<open>SELECT * FROM "table";\<close> with no \<open>WHERE\<close> clause,
  \<open>buildSelectQuery(table, {a:1})\<close> is \<open>SELECT * FROM "table" WHERE "a" = ?;\<close>, and in
  general the fields of the flattened filter are rendered as \<open>"field" = ?\<close> and joined by
  \<open>AND\<close> in the enumeration order of the flattened filter.
\<close>

theorem buildSelectQuery_shape:
  \<open>buildSelectQuery table [] = js ''SELECT * FROM "'' @ table @ js ''";'' \<and>
   buildSelectQuery table [(js ''a'', JNum 1)] =
     js ''SELECT * FROM "'' @ table @ js ''" WHERE "a" = ?;'' \<and>
   buildSelectQuery table params =
     (if own (flattenObj params None emptyObject) = []
      then js ''SELECT * FROM "'' @ table @ js ''";''
      else js ''SELECT * FROM "'' @ table @ js ''" WHERE '' @
           array_join (map (\<lambda>k. js ''"'' @ k @ js ''" = ?'')
             (map fst (own (flattenObj params None emptyObject)))) (js '' AND '') @ js '';'')\<close>
proof (intro conjI)
  show \<open>buildSelectQuery table [] = js ''SELECT * FROM "'' @ table @ js ''";''\<close>
    by (simp add: buildSelectQuery_def buildParamString_eq emptyObject_def)
  show \<open>buildSelectQuery table [(js ''a'', JNum 1)] =
     js ''SELECT * FROM "'' @ table @ js ''" WHERE "a" = ?;''\<close>
    by (simp add: buildSelectQuery_def buildParamString_eq eval_simps)
  show \<open>buildSelectQuery table params =
     (if own (flattenObj params None emptyObject) = []
      then js ''SELECT * FROM "'' @ table @ js ''";''
      else js ''SELECT * FROM "'' @ table @ js ''" WHERE '' @
           array_join (map (\<lambda>k. js ''"'' @ k @ js ''" = ?'')
             (map fst (own (flattenObj params None emptyObject)))) (js '' AND '') @ js '';'')\<close>
    using buildParamString_empty_iff [of params "js '' AND ''" "js '' = ?''"]
    by (simp add: buildSelectQuery_def Let_def) (simp add: buildParamString_eq js_def)
qed

text \<open>
  C3: \<open>buildUpdateQuery(table, {a:1}, {b:2})\<close> is \<open>UPDATE "table" SET "a" = ? WHERE "b" = ?;\<close>.
  With an empty (or absent) filter the statement is the \<open>SET\<close> clause followed by a
  quotation mark and the semicolon, for every table and every value mapping: it is not
  the clean statement that ends after the \<open>SET\<close> clause.
\<close>

theorem buildUpdateQuery_shape:
  \<open>buildUpdateQuery table [(js ''a'', JNum 1)] (Some [(js ''b'', JNum 2)]) =
     js ''UPDATE "'' @ table @ js ''" SET "a" = ? WHERE "b" = ?;'' \<and>
   buildUpdateQuery table valueParams (Some []) =
     js ''UPDATE "'' @ table @ js ''" SET '' @
     buildParamString (forIn (flattenObj valueParams None emptyObject)) (js '', '') (js '' = ?'') @
     js ''";'' \<and>
   buildUpdateQuery table valueParams None = buildUpdateQuery table valueParams (Some []) \<and>
   buildUpdateQuery table valueParams (Some []) \<noteq>
     js ''UPDATE "'' @ table @ js ''" SET '' @
     buildParamString (forIn (flattenObj valueParams None emptyObject)) (js '', '') (js '' = ?'') @
     js '';''\<close>
proof (intro conjI)
  show \<open>buildUpdateQuery table [(js ''a'', JNum 1)] (Some [(js ''b'', JNum 2)]) =
     js ''UPDATE "'' @ table @ js ''" SET "a" = ? WHERE "b" = ?;''\<close>
    by (simp add: buildUpdateQuery_def buildParamString_eq eval_simps)
  show eq: \<open>buildUpdateQuery table valueParams (Some []) =
     js ''UPDATE "'' @ table @ js ''" SET '' @
     buildParamString (forIn (flattenObj valueParams None emptyObject)) (js '', '') (js '' = ?'') @
     js ''";''\<close>
    by (simp add: buildUpdateQuery_def Let_def buildParamString_empty_iff)
       (simp add: emptyObject_def forIn_def)
  show "buildUpdateQuery table valueParams None = buildUpdateQuery table valueParams (Some [])"
    by (simp add: buildUpdateQuery_def)
  show \<open>buildUpdateQuery table valueParams (Some []) \<noteq>
     js ''UPDATE "'' @ table @ js ''" SET '' @
     buildParamString (forIn (flattenObj valueParams None emptyObject)) (js '', '') (js '' = ?'') @
     js '';''\<close>
    unfolding eq by (simp add: js_def)
qed


section \<open>What flattening returns\<close>

text \<open>
  C8 fails on the code. The name of a leaf is meant to be the keys of its ancestors and
  its own key joined by underscores, but the test \<open>parent ? ... : key\<close> takes an empty
  parent name for no parent: \<open>{"": {b: 1}}\<close> flattens to \<open>{b: 1}\<close>, where the joined keys
  are \<open>_b\<close>. A second slip loses a leaf: the assignment \<open>res[propName] = ...\<close> under the
  name \<open>__proto__\<close> calls a setter and creates no property, so \<open>{_: {proto__: 5}, a: 1}\<close>
  flattens to \<open>{a: 1}\<close>.
\<close>

theorem flattenObj_drops_empty_parent:
  "own (flattenObj [(js '''', JObj [(js ''b'', JNum (1::int))])] None emptyObject) =
     [(js ''b'', JNum 1)] \<and>
   map (\<lambda>(p, v). (joined p, v)) (leafPaths [(js '''', JObj [(js ''b'', JNum (1::int))])] []) =
     [(js ''_b'', JNum 1)] \<and>
   own (flattenObj [(js '''', JObj [(js ''b'', JNum (1::int))])] None emptyObject) \<noteq>
     [(js ''_b'', JNum 1)] \<and>
   map (\<lambda>(p, v). (joined p, v))
     (leafPaths [(js ''_'', JObj [(js ''proto__'', JNum (5::int))]), (js ''a'', JNum 1)] []) =
     [(js ''__proto__'', JNum 5), (js ''a'', JNum 1)] \<and>
   own (flattenObj [(js ''_'', JObj [(js ''proto__'', JNum (5::int))]), (js ''a'', JNum 1)]
     None emptyObject) = [(js ''a'', JNum 1)]"
  by (simp add: eval_simps)


section \<open>Bound values and the non-injective flattening\<close>

lemmas store_simps = prepare_run_def recording_engine_def Let_def

lemmas run_simps = insert_row_def find_rows_def findOne_def update_def updateValues_def
  boundValues_def quoteAll_def buildInsertQuery_def buildSelectQuery_def buildUpdateQuery_def
  buildParamString_eq dequoteAll_def

text \<open>
  C2 fails on the code when a field occurs in both mappings: \<open>update('t', {a: 1}, {a: 2})\<close>
  prepares a statement with two placeholders and runs it with the single value 2, because
  \<open>Object.assign\<close> merges the two flattened mappings by key. The values of the value
  mapping followed by those of the filter mapping would be 1 and 2.
\<close>

theorem update_binds_merged_values:
  \<open>update (recording_engine (\<lambda>sql. False)) [] (js ''t'')
      [(js ''a'', JNum (1::int))] (Some [(js ''a'', JNum 2)]) =
     (Inr (), [(js ''BEGIN TRANSACTION;'', []),
               (js ''UPDATE "t" SET "a" = ? WHERE "a" = ?;'', [JNum 2]),
               (js ''COMMIT TRANSACTION;'', [])]) \<and>
   boundValues [(js ''a'', JNum (1::int))] @ boundValues [(js ''a'', JNum 2)] = [JNum 1, JNum 2]\<close>
  by (simp add: run_simps store_simps eval_simps)







section \<open>Decoding\<close>

lemma dequoteAll_ordered:
  assumes "orderedKeys (map fst row)"
  shows "dequoteAll (Some row) =
     Some (map (\<lambda>(k, v). (k, case v of JStr s \<Rightarrow> JStr (unescape s) | _ \<Rightarrow> v)) row)"
proof -
  let ?f = "\<lambda>(k, v). (k, case v of JStr s \<Rightarrow> JStr (unescape s) | _ \<Rightarrow> v)"
  have "map fst (map ?f row) = map fst row" by (induction row) auto
  with assms have "orderedKeys (map fst (map ?f row))" by (simp only:)
  then have "fromEntries (map ?f row) = map ?f row"
    by (rule fromEntries_ordered)
  then show ?thesis by (simp add: dequoteAll_def)
qed

text \<open>
  C4: decoding what the literal mode of \<open>quote\<close> encoded gives the string back, for every
  string: \<open>unescape(escape(s))\<close> is \<open>s\<close>, and a row that holds the quoted literal decodes
  to the row that holds the string. \<open>dequoteAll\<close> leaves \<open>undefined\<close> as it is and, on a
  row, applies \<open>unescape\<close> to the string-valued fields and to no other field, keeping the
  keys and their order.
\<close>

theorem decode_round_trip:
  "unescape (escape s) = s \<and>
   dequoteAll (Some [(k, quote (JStr s) False)]) = Some [(k, JStr s)] \<and>
   dequoteAll None = None \<and>
   (orderedKeys (map fst row) \<longrightarrow>
      dequoteAll (Some row) =
        Some (map (\<lambda>(k, v). (k, case v of JStr s \<Rightarrow> JStr (unescape s) | _ \<Rightarrow> v)) row))"
proof (intro conjI impI)
  show "unescape (escape s) = s" by (rule unescape_escape)
  show "dequoteAll (Some [(k, quote (JStr s) False)]) = Some [(k, JStr s)]"
    by (simp add: dequoteAll_def fromEntries_def unescape_escape js_def)
  show "dequoteAll None = None" by (simp add: dequoteAll_def)
next
  assume "orderedKeys (map fst row)"
  then show "dequoteAll (Some row) =
        Some (map (\<lambda>(k, v). (k, case v of JStr s \<Rightarrow> JStr (unescape s) | _ \<Rightarrow> v)) row)"
    by (rule dequoteAll_ordered)
qed

text \<open>
  C4 at the row \<open>{name: 'it%27s%20%u0153', age: 5, gone: null}\<close>: only the string is
  decoded.
\<close>

theorem decode_round_trip_witness:
  "orderedKeys (map fst [(js ''name'', JStr (js ''it%27s%20%u0153'')), (js ''age'', JNum (5::int)),
       (js ''gone'', JNull)]) \<and>
   dequoteAll (Some [(js ''name'', JStr (js ''it%27s%20%u0153'')), (js ''age'', JNum (5::int)),
       (js ''gone'', JNull)]) =
     Some [(js ''name'', JStr (js ''it'' @ [39] @ js ''s '' @ [339])), (js ''age'', JNum 5),
       (js ''gone'', JNull)]"
proof -
  let ?row = "[(js ''name'', JStr (js ''it%27s%20%u0153'')), (js ''age'', JNum (5::int)),
       (js ''gone'', JNull)]"
  have ord: "orderedKeys (map fst ?row)" by (simp add: eval_simps)
  have "dequoteAll (Some ?row) =
     Some (map (\<lambda>(k, v). (k, case v of JStr s \<Rightarrow> JStr (unescape s) | _ \<Rightarrow> v)) ?row)"
    using decode_round_trip [where row = ?row] ord by blast
  then show ?thesis using ord
    by (simp add: js_def hexDigitsValue_def hexValue_def)
qed


section \<open>Initialisation and transactions\<close>

lemma timesQuoted_0: "timesQuoted 0 v = v"
  by (simp add: timesQuoted_def)

lemma timesQuoted_add: "timesQuoted m (timesQuoted n v) = timesQuoted (m + n) v"
  by (simp add: timesQuoted_def funpow_add)

lemma quoteColumn_eq:
  "quoteColumn v = (timesQuoted 1 v, array_join (quotedName (fst v) # snd v) (js '' ''))"
  by (simp add: quoteColumn_def Let_def timesQuoted_def quotedName_def)

lemma quoteColumns_Cons:
  "quoteColumns h (b # as) =
     (fst (quoteColumns (h(b := timesQuoted 1 (h b))) as),
      array_join (quotedName (fst (h b)) # snd (h b)) (js '' '') #
        snd (quoteColumns (h(b := timesQuoted 1 (h b))) as))"
  by (cases "quoteColumns (h(b := timesQuoted 1 (h b))) as") (simp add: quoteColumn_eq)

declare quoteColumns.simps(2) [simp del]

lemma quoteColumns_heap:
  "fst (quoteColumns h as) = (\<lambda>a. timesQuoted (count_list as a) (h a))"
proof (induction as arbitrary: h)
  case Nil
  then show ?case by (simp add: timesQuoted_0)
next
  case (Cons b as)
  have "fst (quoteColumns h (b # as)) = fst (quoteColumns (h(b := timesQuoted 1 (h b))) as)"
    by (simp only: quoteColumns_Cons fst_conv)
  also have "\<dots> = (\<lambda>a. timesQuoted (count_list as a) ((h(b := timesQuoted 1 (h b))) a))"
    by (rule Cons.IH)
  also have "\<dots> = (\<lambda>a. timesQuoted (count_list (b # as) a) (h a))"
    by (rule ext) (simp add: timesQuoted_add)
  finally show ?case .
qed

lemma quoteColumns_strings:
  "distinct as \<Longrightarrow>
   snd (quoteColumns h as) = map (\<lambda>a. array_join (quotedName (fst (h a)) # snd (h a)) (js '' '')) as"
proof (induction as arbitrary: h)
  case Nil
  then show ?case by simp
next
  case (Cons b as)
  let ?h = "h(b := timesQuoted 1 (h b))"
  from Cons.prems have b: "b \<notin> set as" and d: "distinct as" by simp_all
  have "snd (quoteColumns ?h as) =
      map (\<lambda>a. array_join (quotedName (fst (?h a)) # snd (?h a)) (js '' '')) as"
    using d by (rule Cons.IH)
  also have "\<dots> = map (\<lambda>a. array_join (quotedName (fst (h a)) # snd (h a)) (js '' '')) as"
    using b by (intro map_cong) auto
  finally show ?case
    by (simp only: quoteColumns_Cons snd_conv list.map)
qed

lemma initTables_loop_step:
  \<open>initTables_loop eng s h (table # rest) =
     (case prepare_run eng s
             (js ''CREATE TABLE IF NOT EXISTS "'' @ tableName table @ js ''" ('' @
              array_join (snd (quoteColumns h (columns table))) (js '', '') @ js '');'') of
        (Inl e, s1) \<Rightarrow> (Inl e, s1, fst (quoteColumns h (columns table)))
      | (Inr info, s1) \<Rightarrow> initTables_loop eng s1 (fst (quoteColumns h (columns table))) rest)\<close>
  by (simp add: Let_def case_prod_unfold)

declare initTables_loop.simps(2) [simp del]

lemma initTables_loop_heap:
  "initTables_loop eng s h schema = (Inr u, s', h') \<Longrightarrow>
   h' = (\<lambda>a. timesQuoted (count_list (concat (map columns schema)) a) (h a))"
proof (induction schema arbitrary: s h)
  case Nil
  then show ?case by (simp add: timesQuoted_0)
next
  case (Cons table rest)
  let ?h1 = "fst (quoteColumns h (columns table))"
  from Cons.prems obtain s1 where "initTables_loop eng s1 ?h1 rest = (Inr u, s', h')"
    by (auto simp: initTables_loop_step split: prod.splits sum.splits)
  then have "h' = (\<lambda>a. timesQuoted (count_list (concat (map columns rest)) a) (?h1 a))"
    by (rule Cons.IH)
  then show ?case
    by (simp add: quoteColumns_heap timesQuoted_add add.commute)
qed

lemma initTables_heap:
  "initTables eng s h schema = (Inr u, s', h') \<Longrightarrow>
   h' = (\<lambda>a. timesQuoted (count_list (concat (map columns schema)) a) (h a))"
  by (auto simp: initTables_def split: prod.splits sum.splits dest: initTables_loop_heap)

lemma prepare_run_recording:
  "prepare_run (recording_engine rejected) log sql =
     (if rejected sql then (Inl SqliteError, log) else (Inr (), log @ [(sql, [])]))"
  by (simp add: prepare_run_def recording_engine_def)

lemma createStatement_cong:
  "(\<And>a. a \<in> set (columns table) \<Longrightarrow> h a = h' a) \<Longrightarrow>
   createStatement h table = createStatement h' table"
  unfolding createStatement_def
  by (rule arg_cong [where f = "\<lambda>x. _ @ _ @ _ @ array_join x _ @ _"]) (auto intro!: map_cong)

lemma create_sql_distinct:
  \<open>distinct (columns table) \<Longrightarrow>
   js ''CREATE TABLE IF NOT EXISTS "'' @ tableName table @ js ''" ('' @
     array_join (snd (quoteColumns h (columns table))) (js '', '') @ js '');'' =
   createStatement (\<lambda>a. timesQuoted 1 (h a)) table\<close>
  by (simp add: quoteColumns_strings createStatement_def timesQuoted_def)

lemma initTables_loop_recording:
  "distinct (concat (map columns schema)) \<Longrightarrow>
   initTables_loop (recording_engine (\<lambda>sql. False)) log h schema =
     (Inr (), log @ map (\<lambda>t. (createStatement (\<lambda>a. timesQuoted 1 (h a)) t, [])) schema,
      (\<lambda>a. timesQuoted (count_list (concat (map columns schema)) a) (h a)))"
proof (induction schema arbitrary: log h)
  case Nil
  then show ?case by (simp add: timesQuoted_0)
next
  case (Cons table rest)
  let ?h1 = "fst (quoteColumns h (columns table))"
  from Cons.prems have d: "distinct (columns table)" "distinct (concat (map columns rest))"
    and disj: "set (columns table) \<inter> set (concat (map columns rest)) = {}"
    by auto
  have same: "createStatement (\<lambda>a. timesQuoted 1 (?h1 a)) t =
      createStatement (\<lambda>a. timesQuoted 1 (h a)) t" if "t \<in> set rest" for t
  proof (rule createStatement_cong)
    fix a assume "a \<in> set (columns t)"
    with that disj have "a \<notin> set (columns table)" by auto
    then show "timesQuoted 1 (?h1 a) = timesQuoted 1 (h a)"
      by (simp add: quoteColumns_heap timesQuoted_0)
  qed
  have "initTables_loop (recording_engine (\<lambda>sql. False)) log h (table # rest) =
      initTables_loop (recording_engine (\<lambda>sql. False))
        (log @ [(createStatement (\<lambda>a. timesQuoted 1 (h a)) table, [])]) ?h1 rest"
    by (simp add: initTables_loop_step create_sql_distinct [OF d(1)] prepare_run_recording)
  also have "\<dots> =
      (Inr (), (log @ [(createStatement (\<lambda>a. timesQuoted 1 (h a)) table, [])]) @
         map (\<lambda>t. (createStatement (\<lambda>a. timesQuoted 1 (?h1 a)) t, [])) rest,
       (\<lambda>a. timesQuoted (count_list (concat (map columns rest)) a) (?h1 a)))"
    using d(2) by (rule Cons.IH)
  also have "map (\<lambda>t. (createStatement (\<lambda>a. timesQuoted 1 (?h1 a)) t, [])) rest =
      map (\<lambda>t. (createStatement (\<lambda>a. timesQuoted 1 (h a)) t, [])) rest"
    by (rule map_cong) (simp_all only: same)
  also have "(\<lambda>a. timesQuoted (count_list (concat (map columns rest)) a) (?h1 a)) =
      (\<lambda>a. timesQuoted (count_list (concat (map columns (table # rest))) a) (h a))"
    by (rule ext) (simp add: quoteColumns_heap timesQuoted_add add.commute)
  finally show ?case by simp
qed

lemma count_list_distinct:
  "distinct xs \<Longrightarrow> count_list xs a = (if a \<in> set xs then 1 else 0)"
  by (induction xs) auto

lemma initTables_recording:
  assumes "distinct (concat (map columns schema))"
  shows "initTables (recording_engine (\<lambda>sql. False)) log h schema =
     (Inr (),
      log @ [(js ''BEGIN EXCLUSIVE TRANSACTION;'', [])] @
        map (\<lambda>t. (createStatement (\<lambda>a. timesQuoted 1 (h a)) t, [])) schema @
        [(js ''COMMIT TRANSACTION;'', [])],
      (\<lambda>a. if a \<in> set (concat (map columns schema)) then timesQuoted 1 (h a) else h a))"
proof -
  have "(\<lambda>a. timesQuoted (count_list (concat (map columns schema)) a) (h a)) =
      (\<lambda>a. if a \<in> set (concat (map columns schema)) then timesQuoted 1 (h a) else h a)"
    by (rule ext) (simp add: count_list_distinct [OF assms] timesQuoted_0)
  then show ?thesis
    by (simp add: initTables_def initTables_loop_recording [OF assms] prepare_run_recording)
qed

text \<open>
  C10, amended: \<open>initTables\<close> overwrites the column arrays of the schema in place. When it
  returns, on every store, the name of each column array is wrapped in double quotation
  marks once for each occurrence of the array in the schema. For a schema in which no
  column array occurs twice, every column name is replaced by the name in double
  quotation marks, the statements sent create the tables with these quoted names, and a
  second call with the same schema sends statements whose column names are quoted twice.
\<close>

theorem initTables_quotes_in_place:
  "(initTables eng s h schema = (Inr u, s', h') \<longrightarrow>
      h' = (\<lambda>a. timesQuoted (count_list (concat (map columns schema)) a) (h a))) \<and>
   (distinct (concat (map columns schema)) \<longrightarrow>
      initTables (recording_engine (\<lambda>sql. False)) log h schema =
        (Inr (),
         log @ [(js ''BEGIN EXCLUSIVE TRANSACTION;'', [])] @
           map (\<lambda>t. (createStatement (\<lambda>a. timesQuoted 1 (h a)) t, [])) schema @
           [(js ''COMMIT TRANSACTION;'', [])],
         (\<lambda>a. if a \<in> set (concat (map columns schema)) then timesQuoted 1 (h a) else h a)) \<and>
      initTables (recording_engine (\<lambda>sql. False)) log'
          (\<lambda>a. if a \<in> set (concat (map columns schema)) then timesQuoted 1 (h a) else h a)
          schema =
        (Inr (),
         log' @ [(js ''BEGIN EXCLUSIVE TRANSACTION;'', [])] @
           map (\<lambda>t. (createStatement (\<lambda>a. timesQuoted 2 (h a)) t, [])) schema @
           [(js ''COMMIT TRANSACTION;'', [])],
         (\<lambda>a. if a \<in> set (concat (map columns schema)) then timesQuoted 2 (h a) else h a)))"
proof (intro conjI impI)
  assume "initTables eng s h schema = (Inr u, s', h')"
  then show "h' = (\<lambda>a. timesQuoted (count_list (concat (map columns schema)) a) (h a))"
    by (rule initTables_heap)
next
  assume d: "distinct (concat (map columns schema))"
  then show "initTables (recording_engine (\<lambda>sql. False)) log h schema =
        (Inr (),
         log @ [(js ''BEGIN EXCLUSIVE TRANSACTION;'', [])] @
           map (\<lambda>t. (createStatement (\<lambda>a. timesQuoted 1 (h a)) t, [])) schema @
           [(js ''COMMIT TRANSACTION;'', [])],
         (\<lambda>a. if a \<in> set (concat (map columns schema)) then timesQuoted 1 (h a) else h a))"
    by (rule initTables_recording)
next
  assume d: "distinct (concat (map columns schema))"
  let ?cols = "set (concat (map columns schema))"
  let ?h1 = "\<lambda>a. if a \<in> ?cols then timesQuoted 1 (h a) else h a"
  have same: "createStatement (\<lambda>a. timesQuoted 1 (?h1 a)) t =
      createStatement (\<lambda>a. timesQuoted 2 (h a)) t" if t: "t \<in> set schema" for t
  proof (rule createStatement_cong)
    fix a assume "a \<in> set (columns t)"
    with t have "a \<in> ?cols" by auto
    then show "timesQuoted 1 (?h1 a) = timesQuoted 2 (h a)"
      by (simp add: timesQuoted_add numeral_2_eq_2)
  qed
  have "initTables (recording_engine (\<lambda>sql. False)) log' ?h1 schema =
        (Inr (),
         log' @ [(js ''BEGIN EXCLUSIVE TRANSACTION;'', [])] @
           map (\<lambda>t. (createStatement (\<lambda>a. timesQuoted 1 (?h1 a)) t, [])) schema @
           [(js ''COMMIT TRANSACTION;'', [])],
         (\<lambda>a. if a \<in> ?cols then timesQuoted 1 (?h1 a) else ?h1 a))"
    using d by (rule initTables_recording)
  also have "map (\<lambda>t. (createStatement (\<lambda>a. timesQuoted 1 (?h1 a)) t, [])) schema =
      map (\<lambda>t. (createStatement (\<lambda>a. timesQuoted 2 (h a)) t, [])) schema"
    by (rule map_cong) (simp_all only: same)
  also have "(\<lambda>a. if a \<in> ?cols then timesQuoted 1 (?h1 a) else ?h1 a) =
      (\<lambda>a. if a \<in> ?cols then timesQuoted 2 (h a) else h a)"
    by (rule ext) (simp add: timesQuoted_add numeral_2_eq_2)
  finally show "initTables (recording_engine (\<lambda>sql. False)) log' ?h1 schema =
        (Inr (),
         log' @ [(js ''BEGIN EXCLUSIVE TRANSACTION;'', [])] @
           map (\<lambda>t. (createStatement (\<lambda>a. timesQuoted 2 (h a)) t, [])) schema @
           [(js ''COMMIT TRANSACTION;'', [])],
         (\<lambda>a. if a \<in> ?cols then timesQuoted 2 (h a) else h a))" .
qed

lemmas init_simps = initTables_def initTables_loop_step quoteColumns_Cons
  prepare_run_recording timesQuoted_def quotedName_def

text \<open>
  C10, as stated: after \<open>initTables\<close> every column name of the schema is the name in double
  quotation marks. With one column array used by two tables,
  \<open>const id = ['id', 'INTEGER']\<close> in \<open>[{tableName: 'a', columns: [id]}, {tableName: 'b',
  columns: [id]}]\<close>, the array is overwritten once for each table: the statement of the
  second table already has the name quoted twice, and after the call the name is
  \<open>""id""\<close> and not \<open>"id"\<close>.
\<close>

theorem initTables_quotes_in_place_counterexample:
  \<open>fst (snd (initTables (recording_engine (\<lambda>sql. False)) []
       (\<lambda>a. (js ''id'', [js ''INTEGER'']))
       [\<lparr>tableName = js ''a'', columns = [0]\<rparr>, \<lparr>tableName = js ''b'', columns = [0]\<rparr>])) =
     [(js ''BEGIN EXCLUSIVE TRANSACTION;'', []),
      (js ''CREATE TABLE IF NOT EXISTS "a" ("id" INTEGER);'', []),
      (js ''CREATE TABLE IF NOT EXISTS "b" (""id"" INTEGER);'', []),
      (js ''COMMIT TRANSACTION;'', [])] \<and>
   snd (snd (initTables (recording_engine (\<lambda>sql. False)) []
       (\<lambda>a. (js ''id'', [js ''INTEGER'']))
       [\<lparr>tableName = js ''a'', columns = [0]\<rparr>, \<lparr>tableName = js ''b'', columns = [0]\<rparr>])) 0 =
     (js ''""id""'', [js ''INTEGER'']) \<and>
   snd (snd (initTables (recording_engine (\<lambda>sql. False)) []
       (\<lambda>a. (js ''id'', [js ''INTEGER'']))
       [\<lparr>tableName = js ''a'', columns = [0]\<rparr>, \<lparr>tableName = js ''b'', columns = [0]\<rparr>])) 0 \<noteq>
     (js ''"id"'', [js ''INTEGER''])\<close>
  by (simp add: init_simps js_def)

text \<open>
  C10 at the schema of the documentation, a table \<open>questions\<close> with the columns \<open>author\<close>
  and \<open>questionText\<close>, each in an array of its own: the first call, the heap it leaves
  and the second call.
\<close>

theorem initTables_quotes_in_place_witness:
  \<open>distinct (concat (map columns [\<lparr>tableName = js ''questions'', columns = [0, 1]\<rparr>])) \<and>
   initTables (recording_engine (\<lambda>sql. False)) []
       ((\<lambda>a. ([], []))(0 := (js ''author'', [js ''NUMERIC'']),
                        1 := (js ''questionText'', [js ''TEXT''])))
       [\<lparr>tableName = js ''questions'', columns = [0, 1]\<rparr>] =
     (Inr (),
      [(js ''BEGIN EXCLUSIVE TRANSACTION;'', []),
       (js ''CREATE TABLE IF NOT EXISTS "questions" ("author" NUMERIC, "questionText" TEXT);'', []),
       (js ''COMMIT TRANSACTION;'', [])],
      (\<lambda>a. ([], []))(0 := (js ''"author"'', [js ''NUMERIC'']),
                       1 := (js ''"questionText"'', [js ''TEXT'']))) \<and>
   (\<lambda>a. ([], []))(0 := (js ''"author"'', [js ''NUMERIC'']),
                    1 := (js ''"questionText"'', [js ''TEXT''])) =
     (\<lambda>a. timesQuoted
        (count_list (concat (map columns [\<lparr>tableName = js ''questions'', columns = [0, 1]\<rparr>])) a)
        (((\<lambda>a. ([], []))(0 := (js ''author'', [js ''NUMERIC'']),
                          1 := (js ''questionText'', [js ''TEXT'']))) a)) \<and>
   initTables (recording_engine (\<lambda>sql. False)) []
       ((\<lambda>a. ([], []))(0 := (js ''"author"'', [js ''NUMERIC'']),
                        1 := (js ''"questionText"'', [js ''TEXT''])))
       [\<lparr>tableName = js ''questions'', columns = [0, 1]\<rparr>] =
     (Inr (),
      [(js ''BEGIN EXCLUSIVE TRANSACTION;'', []),
       (js ''CREATE TABLE IF NOT EXISTS "questions" (""author"" NUMERIC, ""questionText"" TEXT);'', []),
       (js ''COMMIT TRANSACTION;'', [])],
      (\<lambda>a. ([], []))(0 := (js ''""author""'', [js ''NUMERIC'']),
                       1 := (js ''""questionText""'', [js ''TEXT''])))\<close>
proof -
  let ?schema = "[\<lparr>tableName = js ''questions'', columns = [0, 1]\<rparr>]"
  let ?h = "(\<lambda>a. ([], []))(0 := (js ''author'', [js ''NUMERIC'']),
                        1 := (js ''questionText'', [js ''TEXT'']))"
  let ?h1 = "(\<lambda>a. ([], []))(0 := (js ''\"author\"'', [js ''NUMERIC'']),
                        1 := (js ''\"questionText\"'', [js ''TEXT'']))"
  let ?h2 = "(\<lambda>a. ([], []))(0 := (js ''\"\"author\"\"'', [js ''NUMERIC'']),
                        1 := (js ''\"\"questionText\"\"'', [js ''TEXT'']))"
  have d: "distinct (concat (map columns ?schema))" by simp
  have h1: "(\<lambda>a. if a \<in> set (concat (map columns ?schema)) then timesQuoted 1 (?h a) else ?h a) = ?h1"
    by (rule ext) (simp add: timesQuoted_def quotedName_def js_def)
  have h2: "(\<lambda>a. if a \<in> set (concat (map columns ?schema)) then timesQuoted 2 (?h a) else ?h a) = ?h2"
    by (rule ext) (simp add: timesQuoted_def quotedName_def js_def numeral_2_eq_2)
  note inst = initTables_quotes_in_place [where schema = ?schema and h = ?h and log = "[]"
      and log' = "[]", THEN conjunct2, THEN mp, OF d, unfolded h1 h2]
  have first: "initTables (recording_engine (\<lambda>sql. False)) [] ?h ?schema =
     (Inr (),
      [(js ''BEGIN EXCLUSIVE TRANSACTION;'', []),
       (js ''CREATE TABLE IF NOT EXISTS \"questions\" (\"author\" NUMERIC, \"questionText\" TEXT);'', []),
       (js ''COMMIT TRANSACTION;'', [])], ?h1)"
    using inst [THEN conjunct1]
    by (simp add: createStatement_def timesQuoted_def quotedName_def js_def)
  have second: "initTables (recording_engine (\<lambda>sql. False)) [] ?h1 ?schema =
     (Inr (),
      [(js ''BEGIN EXCLUSIVE TRANSACTION;'', []),
       (js ''CREATE TABLE IF NOT EXISTS \"questions\" (\"\"author\"\" NUMERIC, \"\"questionText\"\" TEXT);'', []),
       (js ''COMMIT TRANSACTION;'', [])], ?h2)"
    using inst [THEN conjunct2]
    by (simp add: createStatement_def timesQuoted_def quotedName_def js_def numeral_2_eq_2)
  have heap: "?h1 = (\<lambda>a. timesQuoted (count_list (concat (map columns ?schema)) a) (?h a))"
    using initTables_quotes_in_place [where schema = ?schema and h = ?h
        and eng = "recording_engine (\<lambda>sql. False)" and s = "[]", THEN conjunct1, THEN mp, OF first] .
  from d first heap second show ?thesis by (intro conjI)
qed

text \<open>
  C6 fails on the code: no operation rolls back. When the statement of the second table
  cannot be prepared, \<open>initTables\<close> has begun the transaction and created the first table,
  and it leaves by the exception with neither \<open>COMMIT\<close> nor \<open>ROLLBACK\<close>; the connection
  stays inside the open transaction, in which its later reads see the first table. The
  same holds for \<open>atomicQuery\<close> when its second statement fails (with a global \<open>query\<close>
  variable); without that variable it throws a \<open>ReferenceError\<close> right after \<open>BEGIN\<close> and
  runs none of its statements.
\<close>

theorem transaction_left_open:
  \<open>initTables (recording_engine (\<lambda>sql. sql = js ''CREATE TABLE IF NOT EXISTS "b" ();'')) []
      (\<lambda>a. (js ''x'', [js ''TEXT'']))
      [\<lparr>tableName = js ''a'', columns = [0]\<rparr>, \<lparr>tableName = js ''b'', columns = []\<rparr>] =
     (Inl SqliteError,
      [(js ''BEGIN EXCLUSIVE TRANSACTION;'', []),
       (js ''CREATE TABLE IF NOT EXISTS "a" ("x" TEXT);'', [])],
      (\<lambda>a. (js ''x'', [js ''TEXT'']))(0 := (js ''"x"'', [js ''TEXT'']))) \<and>
   atomicQuery (recording_engine (\<lambda>sql. sql = js ''INSERT INTO t VALUES ();'')) True []
      [js ''INSERT INTO t VALUES (1);'', js ''INSERT INTO t VALUES ();''] =
     (Inl SqliteError,
      [(js ''BEGIN EXCLUSIVE TRANSACTION;'', []), (js ''INSERT INTO t VALUES (1);'', [])]) \<and>
   atomicQuery (recording_engine (\<lambda>sql. False)) False []
      [js ''INSERT INTO t VALUES (1);'', js ''INSERT INTO t VALUES (2);''] =
     (Inl ReferenceError, [(js ''BEGIN EXCLUSIVE TRANSACTION;'', [])])\<close>
  by (simp add: init_simps atomicQuery_def js_def)


section \<open>Insert and find on a one-column store\<close>












end
